theory Spec2Isabelle
  imports Complex_Main
begin

section \<open>Data model\<close>

text \<open>
  The interfaces of \<^verbatim>\<open>src/API/types.ts\<close> and the page-local interfaces. An optional
  field (\<^verbatim>\<open>color?: string\<close>) is an \<open>option\<close>, with \<open>None\<close> for \<^verbatim>\<open>undefined\<close>.

  A JavaScript \<^verbatim>\<open>number\<close> that the modelled functions only copy or compare with
  another such number (prices, stock, category levels) is a \<open>real\<close>: these come from
  the server's JSON or from the form and no arithmetic is done on them.
\<close>

type_synonym number = real

text \<open>
  The quantity of a cart line is a JavaScript number in full. The sale page sets it to
  \<^verbatim>\<open>parseInt(e.target.value)\<close>, which is \<^verbatim>\<open>NaN\<close> for an emptied box, compares it with
  \<^verbatim>\<open><\<close>, \<^verbatim>\<open>>\<close> and \<^verbatim>\<open>>=\<close>, which are all false on \<^verbatim>\<open>NaN\<close>, and adds 1 to it in double
  arithmetic. \<open>Finite x\<close> is the double of value \<open>x\<close>; the two zeros are one value.
\<close>

datatype jsNumber = NaN | NegInfinity | Finite real | PosInfinity

text \<open>\<^verbatim>\<open>a < b\<close>, \<^verbatim>\<open>a > b\<close> and \<^verbatim>\<open>a >= b\<close> on numbers.\<close>

fun jsLess :: "jsNumber \<Rightarrow> jsNumber \<Rightarrow> bool" where
  "jsLess NaN b = False"
| "jsLess a NaN = False"
| "jsLess (Finite x) (Finite y) = (x < y)"
| "jsLess PosInfinity b = False"
| "jsLess a NegInfinity = False"
| "jsLess NegInfinity b = True"
| "jsLess a PosInfinity = True"

definition jsGreater :: "jsNumber \<Rightarrow> jsNumber \<Rightarrow> bool" where
  "jsGreater a b = jsLess b a"

definition jsGreaterEq :: "jsNumber \<Rightarrow> jsNumber \<Rightarrow> bool" where
  "jsGreaterEq a b = (a \<noteq> NaN \<and> b \<noteq> NaN \<and> \<not> jsLess a b)"

text \<open>
  Rounding of a real to the nearest double, ties to the even significand. \<open>binade x\<close>
  is the exponent \<open>e\<close> with \<open>2 powi e \<le> \<bar>x\<bar> < 2 powi (e + 1)\<close>, kept within the
  exponents -1022 to 1023 of binary64 (below \<open>2 powi (-1022)\<close> the spacing is that of
  the subnormal numbers); the doubles of that binade are the multiples of
  \<open>2 powi (e - 52)\<close>. A result of magnitude \<open>2 powi 1024\<close> or more is an infinity.
\<close>

definition roundHalfEven :: "real \<Rightarrow> int" where
  "roundHalfEven y =
     (let f = \<lfloor>y\<rfloor>; d = y - of_int f
      in if d < 1/2 then f else if d > 1/2 then f + 1
         else if even f then f else f + 1)"

definition binade :: "real \<Rightarrow> int" where
  "binade x = (case find (\<lambda>k. 2 powi k \<le> \<bar>x\<bar>) (rev [-1022..1023]) of
                 Some k \<Rightarrow> k | None \<Rightarrow> -1022)"

definition overflowBound :: real where
  "overflowBound = 2 powi 1024"

definition roundDouble :: "real \<Rightarrow> jsNumber" where
  "roundDouble x =
     (let u = 2 powi (binade x - 52);
          r = of_int (roundHalfEven (x / u)) * u
      in if r \<ge> overflowBound then PosInfinity
         else if r \<le> - overflowBound then NegInfinity
         else Finite r)"

text \<open>\<^verbatim>\<open>a + b\<close> on numbers.\<close>

fun jsAdd :: "jsNumber \<Rightarrow> jsNumber \<Rightarrow> jsNumber" where
  "jsAdd NaN b = NaN"
| "jsAdd a NaN = NaN"
| "jsAdd (Finite x) (Finite y) = roundDouble (x + y)"
| "jsAdd PosInfinity NegInfinity = NaN"
| "jsAdd NegInfinity PosInfinity = NaN"
| "jsAdd PosInfinity b = PosInfinity"
| "jsAdd a PosInfinity = PosInfinity"
| "jsAdd NegInfinity b = NegInfinity"
| "jsAdd a NegInfinity = NegInfinity"

text \<open>\<^verbatim>\<open>interface Category { id; name; level; parentId?; subCategories: Category[] }\<close>\<close>

datatype category =
  Category (cat_id: string) (cat_name: string) (cat_level: number)
    (cat_parentId: "string option") (subCategories: "category list")

text \<open>\<^verbatim>\<open>interface ProductVariant\<close>; the field \<^verbatim>\<open>id\<close> is \<open>variant_id\<close>.\<close>

record productVariant =
  variant_id :: string
  color :: "string option"
  ram :: "string option"
  storage :: "string option"
  purchasedPrice :: number
  sellingPrice :: number
  stock :: number

text \<open>
  \<^verbatim>\<open>interface Product\<close>. \<open>product_uid\<close> is the field \<^verbatim>\<open>_id\<close>, \<open>product_id\<close> the field
  \<^verbatim>\<open>id\<close>. The interface declares \<^verbatim>\<open>variants\<close> mandatory, but the sale page tests
  \<^verbatim>\<open>product.variants &&\<close> before reading it, so a missing list is \<open>None\<close> here. The
  fields \<^verbatim>\<open>specifications\<close>, \<^verbatim>\<open>availableOptions\<close>, \<^verbatim>\<open>createdAt\<close> and \<^verbatim>\<open>updatedAt\<close> are
  read by none of the functions below and are left out.
\<close>

record product =
  product_uid :: "string option"
  product_id :: "string option"
  product_name :: string
  brand :: string
  basePrice :: number
  product_purchasedPrice :: number
  product_sellingPrice :: number
  mainCategory :: string
  subCategory :: "string option"
  subSubCategory :: "string option"
  description :: string
  images :: "string list"
  variants :: "productVariant list option"

text \<open>\<^verbatim>\<open>interface CartItem { productId; name; price; quantity }\<close> of the new-sale page.\<close>

record cartItem =
  productId :: string
  item_name :: string
  price :: number
  quantity :: jsNumber

section \<open>Category hierarchy resolver\<close>

text \<open>
  \<^verbatim>\<open>findCategory\<close> inside \<^verbatim>\<open>isProductInCategory\<close> (products page): a \<^verbatim>\<open>for\<close> loop over the
  list that returns the first node with the wanted id, searching each node's
  \<^verbatim>\<open>subCategories\<close> before moving to its next sibling.
\<close>

fun findCategory :: "string \<Rightarrow> category list \<Rightarrow> category option" where
  "findCategory categoryId [] = None"
| "findCategory categoryId (Category i n l p subs # cats) =
     (if i = categoryId then Some (Category i n l p subs)
      else (case findCategory categoryId subs of
              Some found \<Rightarrow> Some found
            | None \<Rightarrow> findCategory categoryId cats))"

text \<open>
  \<^verbatim>\<open>isInHierarchy\<close>: the three early returns, then
  \<^verbatim>\<open>category.subCategories?.some(isInHierarchy) || false\<close>.
\<close>

fun isInHierarchy :: "product \<Rightarrow> category \<Rightarrow> bool" where
  "isInHierarchy product (Category i n l p subs) =
     (if mainCategory product = i then True
      else if subCategory product = Some i then True
      else if subSubCategory product = Some i then True
      else list_ex (isInHierarchy product) subs)"

text \<open>
  \<^verbatim>\<open>isProductInCategory(product, categoryId)\<close>; the component state \<^verbatim>\<open>categories\<close> it
  closes over is the first argument. \<^verbatim>\<open>!categoryId\<close> holds of the empty string only.
\<close>

definition isProductInCategory :: "category list \<Rightarrow> product \<Rightarrow> string \<Rightarrow> bool" where
  "isProductInCategory categories product categoryId =
     (if categoryId = [] then True
      else if mainCategory product = categoryId then True
      else if subCategory product = Some categoryId then True
      else if subSubCategory product = Some categoryId then True
      else (case findCategory categoryId categories of
              None \<Rightarrow> False
            | Some selectedCategory \<Rightarrow> isInHierarchy product selectedCategory))"

lemma size_subCategories: "size_list size (subCategories c) < size c"
  by (cases c) simp

lemma size_subCategories_mem:
  "c \<in> set cats \<Longrightarrow> size_list size (subCategories c) < size_list size cats"
  by (induction cats) (auto intro: less_trans [OF size_subCategories])

text \<open>
  \<^verbatim>\<open>flatten\<close> inside \<^verbatim>\<open>getAvailableParentCategories\<close> of
  \<^verbatim>\<open>src/app/categories/manage/page.tsx\<close>: a \<^verbatim>\<open>reduce\<close> whose callback pushes the node when
  its level matches and then pushes the flattened children. The guards against a missing
  array or a null element never fire on a \<open>category list\<close>.
\<close>

function flatten :: "category list \<Rightarrow> number \<Rightarrow> category list" where
  "flatten cats targetLevel =
     foldl (\<lambda>acc cat.
              (let acc1 = (if cat_level cat = targetLevel then acc @ [cat] else acc)
               in acc1 @ flatten (subCategories cat) targetLevel))
           [] cats"
  by pat_completeness auto
termination
  by (relation "measure (\<lambda>(cats, _). size_list size cats)")
     (auto simp: size_subCategories_mem)

definition getAvailableParentCategories :: "category list \<Rightarrow> number \<Rightarrow> category list" where
  "getAvailableParentCategories categories lvl =
     (if lvl = 1 then [] else flatten categories (lvl - 1))"

text \<open>
  The older categories page has its own \<^verbatim>\<open>getAvailableParentCategories\<close>, over the state
  \<^verbatim>\<open>selectedLevel\<close>, with a \<^verbatim>\<open>reduce\<close> that rebuilds the accumulator by spreading.
\<close>

function flattenCategories :: "category list \<Rightarrow> number \<Rightarrow> category list" where
  "flattenCategories cats lvl =
     foldl (\<lambda>acc cat.
              if cat_level cat = lvl
              then acc @ [cat] @ flattenCategories (subCategories cat) lvl
              else acc @ flattenCategories (subCategories cat) lvl)
           [] cats"
  by pat_completeness auto
termination
  by (relation "measure (\<lambda>(cats, _). size_list size cats)")
     (auto simp: size_subCategories_mem)

definition getAvailableParentCategories_selected ::
  "category list \<Rightarrow> number \<Rightarrow> category list" where
  "getAvailableParentCategories_selected categories selectedLevel =
     (if selectedLevel = 1 then [] else flattenCategories categories (selectedLevel - 1))"

declare flatten.simps [simp del] flattenCategories.simps [simp del]

section \<open>Variant matrix generator\<close>

text \<open>
  The three values \<^verbatim>\<open>watch('basePrice')\<close>, \<^verbatim>\<open>watch('purchasedPrice')\<close> and
  \<^verbatim>\<open>watch('sellingPrice')\<close> of the product form; \<open>None\<close> stands for \<^verbatim>\<open>undefined\<close> and
  for \<^verbatim>\<open>NaN\<close>, which \<^verbatim>\<open>||\<close> treats alike.
\<close>

record priceForm =
  form_basePrice :: "number option"
  form_purchasedPrice :: "number option"
  form_sellingPrice :: "number option"

text \<open>\<^verbatim>\<open>x || d\<close> on a number: \<^verbatim>\<open>0\<close>, \<^verbatim>\<open>NaN\<close> and \<^verbatim>\<open>undefined\<close> are falsy.\<close>

definition orElse :: "number option \<Rightarrow> number \<Rightarrow> number" where
  "orElse x d = (case x of None \<Rightarrow> d | Some v \<Rightarrow> if v = 0 then d else v)"

text \<open>\<^verbatim>\<open>Array.prototype.join\<close> on strings.\<close>

fun join :: "string \<Rightarrow> string list \<Rightarrow> string" where
  "join sep [] = []"
| "join sep [x] = x"
| "join sep (x # y # ys) = x @ sep @ join sep (y # ys)"

text \<open>
  \<^verbatim>\<open>color && `color-${color}`\<close>: \<^verbatim>\<open>undefined\<close> and the empty string are falsy and are
  then dropped by \<^verbatim>\<open>filter(Boolean)\<close>; \<open>None\<close> is a dropped entry.
\<close>

definition axisTag :: "string \<Rightarrow> string option \<Rightarrow> string option" where
  "axisTag prefix v =
     (case v of None \<Rightarrow> None | Some s \<Rightarrow> if s = [] then None else Some (prefix @ s))"

text \<open>
  \<^verbatim>\<open>addVariant(color?, ram?, storage?)\<close>: the id is the joined tags, or \<^verbatim>\<open>'default'\<close> when
  the joined string is empty; the pushed variant is the result.
\<close>

definition addVariant ::
  "number \<Rightarrow> number \<Rightarrow> string option \<Rightarrow> string option \<Rightarrow> string option \<Rightarrow> productVariant" where
  "addVariant purchased selling c r s =
     (let joined = join ''-'' (List.map_filter (\<lambda>t. t)
                      [axisTag ''color-'' c, axisTag ''ram-'' r, axisTag ''storage-'' s]);
          vid = (if joined = [] then ''default'' else joined)
      in \<lparr>variant_id = vid, color = c, ram = r, storage = s,
          purchasedPrice = purchased, sellingPrice = selling, stock = 0\<rparr>)"

text \<open>
  \<^verbatim>\<open>generateVariants(colors, rams, storages)\<close>; the returned list is the \<^verbatim>\<open>newVariants\<close>
  handed to \<^verbatim>\<open>setVariants\<close>. Each \<^verbatim>\<open>forEach\<close> that pushes is a \<open>map\<close>, a \<^verbatim>\<open>forEach\<close> over
  an inner loop a \<open>concat\<close>.
\<close>

definition generateVariants ::
  "priceForm \<Rightarrow> string list \<Rightarrow> string list \<Rightarrow> string list \<Rightarrow> productVariant list" where
  "generateVariants form colors rams storages =
     (let base = orElse (form_basePrice form) 0;
          purchased = orElse (form_purchasedPrice form) 0;
          selling = orElse (form_sellingPrice form) base
      in if colors = [] \<and> rams = [] \<and> storages = []
         then [\<lparr>variant_id = ''default'', color = None, ram = None, storage = None,
                 purchasedPrice = purchased, sellingPrice = selling, stock = 0\<rparr>]
         else if colors \<noteq> []
         then concat (map (\<lambda>c.
                if rams \<noteq> []
                then concat (map (\<lambda>r.
                       if storages \<noteq> []
                       then map (\<lambda>s. addVariant purchased selling (Some c) (Some r) (Some s))
                              storages
                       else [addVariant purchased selling (Some c) (Some r) None]) rams)
                else if storages \<noteq> []
                then map (\<lambda>s. addVariant purchased selling (Some c) None (Some s)) storages
                else [addVariant purchased selling (Some c) None None]) colors)
         else if rams \<noteq> []
         then concat (map (\<lambda>r.
                if storages \<noteq> []
                then map (\<lambda>s. addVariant purchased selling None (Some r) (Some s)) storages
                else [addVariant purchased selling None (Some r) None]) rams)
         else if storages \<noteq> []
         then map (\<lambda>s. addVariant purchased selling None None (Some s)) storages
         else [])"

text \<open>
  The three option lists are page state, \<^verbatim>\<open>colorOptions\<close>, \<^verbatim>\<open>ramOptions\<close> and
  \<^verbatim>\<open>storageOptions\<close>, all empty at first. Every call of \<^verbatim>\<open>generateVariants\<close> passes
  them as they are after one of six handlers: \<^verbatim>\<open>addColorOption\<close> (and its two siblings)
  appends the answer of \<^verbatim>\<open>prompt\<close>, \<open>None\<close> when it is cancelled, under the guard
  \<^verbatim>\<open>color && !colorOptions.includes(color)\<close>; \<^verbatim>\<open>removeColorOption\<close> (and its two
  siblings) filters one value out. The three price inputs call \<^verbatim>\<open>generateVariants\<close> on
  the lists unchanged.
\<close>

record optionState =
  colorOptions :: "string list"
  ramOptions :: "string list"
  storageOptions :: "string list"

definition initialOptions :: optionState where
  "initialOptions = \<lparr>colorOptions = [], ramOptions = [], storageOptions = []\<rparr>"

definition addColorOption :: "optionState \<Rightarrow> string option \<Rightarrow> optionState" where
  "addColorOption st answer =
     (case answer of
        None \<Rightarrow> st
      | Some c \<Rightarrow>
          if c \<noteq> [] \<and> c \<notin> set (colorOptions st)
          then st\<lparr>colorOptions := colorOptions st @ [c]\<rparr> else st)"

definition addRamOption :: "optionState \<Rightarrow> string option \<Rightarrow> optionState" where
  "addRamOption st answer =
     (case answer of
        None \<Rightarrow> st
      | Some r \<Rightarrow>
          if r \<noteq> [] \<and> r \<notin> set (ramOptions st)
          then st\<lparr>ramOptions := ramOptions st @ [r]\<rparr> else st)"

definition addStorageOption :: "optionState \<Rightarrow> string option \<Rightarrow> optionState" where
  "addStorageOption st answer =
     (case answer of
        None \<Rightarrow> st
      | Some s \<Rightarrow>
          if s \<noteq> [] \<and> s \<notin> set (storageOptions st)
          then st\<lparr>storageOptions := storageOptions st @ [s]\<rparr> else st)"

definition removeColorOption :: "optionState \<Rightarrow> string \<Rightarrow> optionState" where
  "removeColorOption st c =
     st\<lparr>colorOptions := filter (\<lambda>x. x \<noteq> c) (colorOptions st)\<rparr>"

definition removeRamOption :: "optionState \<Rightarrow> string \<Rightarrow> optionState" where
  "removeRamOption st r = st\<lparr>ramOptions := filter (\<lambda>x. x \<noteq> r) (ramOptions st)\<rparr>"

definition removeStorageOption :: "optionState \<Rightarrow> string \<Rightarrow> optionState" where
  "removeStorageOption st s =
     st\<lparr>storageOptions := filter (\<lambda>x. x \<noteq> s) (storageOptions st)\<rparr>"

text \<open>The user's actions on the option lists, and the state after a sequence of them.\<close>

datatype optionEvent =
    AddColor "string option" | AddRam "string option" | AddStorage "string option"
  | RemoveColor string | RemoveRam string | RemoveStorage string

fun optionStep :: "optionState \<Rightarrow> optionEvent \<Rightarrow> optionState" where
  "optionStep st (AddColor answer) = addColorOption st answer"
| "optionStep st (AddRam answer) = addRamOption st answer"
| "optionStep st (AddStorage answer) = addStorageOption st answer"
| "optionStep st (RemoveColor c) = removeColorOption st c"
| "optionStep st (RemoveRam r) = removeRamOption st r"
| "optionStep st (RemoveStorage s) = removeStorageOption st s"

definition optionsAfter :: "optionEvent list \<Rightarrow> optionState" where
  "optionsAfter events = foldl optionStep initialOptions events"

text \<open>
  \<^verbatim>\<open>updateVariant(variantId, field, value)\<close> over the state \<^verbatim>\<open>variants\<close>;
  \<^verbatim>\<open>{ ...variant, [field]: value }\<close> is \<open>setField\<close>.
\<close>

datatype variantField = PurchasedPriceField | SellingPriceField | StockField

fun setField :: "variantField \<Rightarrow> number \<Rightarrow> productVariant \<Rightarrow> productVariant" where
  "setField PurchasedPriceField x v = v\<lparr>purchasedPrice := x\<rparr>"
| "setField SellingPriceField x v = v\<lparr>sellingPrice := x\<rparr>"
| "setField StockField x v = v\<lparr>stock := x\<rparr>"

definition updateVariant ::
  "productVariant list \<Rightarrow> string \<Rightarrow> variantField \<Rightarrow> number \<Rightarrow> productVariant list" where
  "updateVariant vs variantId field x =
     map (\<lambda>variant. if variant_id variant = variantId then setField field x variant
                     else variant) vs"

section \<open>Cart\<close>

text \<open>
  Every early \<^verbatim>\<open>return\<close> of \<^verbatim>\<open>addToCart\<close> and \<^verbatim>\<open>updateQuantity\<close> is an error value; the
  two that show \<^verbatim>\<open>toast.error\<close> carry the stock figure of the message. \<open>Inr\<close> is the list
  handed to \<^verbatim>\<open>setCart\<close>. After \<open>Inl\<close> the cart state is the one before the call.
\<close>

datatype cartError =
    MissingProductId
  | NoVariantAvailable
  | StockExceeded number
  | QuantityBelowOne
  | StockLimitExceeded number

text \<open>
  \<^verbatim>\<open>product._id || product.id\<close>: an absent or empty \<^verbatim>\<open>_id\<close> falls through to \<^verbatim>\<open>id\<close>,
  whatever that is.
\<close>

definition idOf :: "product \<Rightarrow> string option" where
  "idOf p = (case product_uid p of
               None \<Rightarrow> product_id p
             | Some u \<Rightarrow> if u = [] then product_id p else Some u)"

text \<open>\<^verbatim>\<open>product.variants && product.variants[0]\<close>; an empty array has no element 0.\<close>

definition defaultVariantOf :: "product \<Rightarrow> productVariant option" where
  "defaultVariantOf p = (case variants p of
                           None \<Rightarrow> None
                         | Some [] \<Rightarrow> None
                         | Some (v # _) \<Rightarrow> Some v)"

text \<open>
  \<^verbatim>\<open>addToCart(product)\<close> over the state \<^verbatim>\<open>cart\<close>. The updater passed to \<^verbatim>\<open>setCart\<close>
  runs on the same list the stock check read. The stock of a variant is a number of the
  server's JSON, which holds neither \<^verbatim>\<open>NaN\<close> nor an infinity.
\<close>

definition addToCart :: "cartItem list \<Rightarrow> product \<Rightarrow> cartError + cartItem list" where
  "addToCart cart product =
     (case idOf product of
        None \<Rightarrow> Inl MissingProductId
      | Some pid \<Rightarrow>
          if pid = [] then Inl MissingProductId
          else (case defaultVariantOf product of
                  None \<Rightarrow> Inl NoVariantAvailable
                | Some defaultVariant \<Rightarrow>
                    (let existingItem = find (\<lambda>item. productId item = pid) cart;
                         currentQuantity = (case existingItem of
                                              Some item \<Rightarrow> quantity item
                                            | None \<Rightarrow> Finite 0)
                     in if jsGreaterEq currentQuantity (Finite (stock defaultVariant))
                        then Inl (StockExceeded (stock defaultVariant))
                        else (case existingItem of
                                Some _ \<Rightarrow>
                                  Inr (map (\<lambda>item.
                                         if productId item = pid
                                         then item\<lparr>quantity :=
                                                      jsAdd (quantity item) (Finite 1)\<rparr>
                                         else item) cart)
                              | None \<Rightarrow>
                                  Inr (cart @ [\<lparr>productId = pid,
                                                 item_name = product_name product,
                                                 price = sellingPrice defaultVariant,
                                                 quantity = Finite 1\<rparr>])))))"

text \<open>
  \<^verbatim>\<open>updateQuantity(productId, quantity)\<close> over the states \<^verbatim>\<open>products\<close> and \<^verbatim>\<open>cart\<close>. The
  stock check is skipped when no product of the list has the id or the product has no
  first variant.
\<close>

definition updateQuantity ::
  "product list \<Rightarrow> cartItem list \<Rightarrow> string \<Rightarrow> jsNumber \<Rightarrow> cartError + cartItem list" where
  "updateQuantity products cart pid qty =
     (if jsLess qty (Finite 1) then Inl QuantityBelowOne
      else (let defaultVariant =
                  (case find (\<lambda>p. idOf p = Some pid) products of
                     None \<Rightarrow> None
                   | Some product \<Rightarrow> defaultVariantOf product)
            in case defaultVariant of
                 Some v \<Rightarrow>
                   if jsGreater qty (Finite (stock v))
                   then Inl (StockLimitExceeded (stock v))
                   else Inr (map (\<lambda>item. if productId item = pid
                                         then item\<lparr>quantity := qty\<rparr> else item) cart)
               | None \<Rightarrow>
                   Inr (map (\<lambda>item. if productId item = pid
                                     then item\<lparr>quantity := qty\<rparr> else item) cart)))"

text \<open>The cart state after a call: unchanged on an early return.\<close>

definition cartAfter :: "cartItem list \<Rightarrow> cartError + cartItem list \<Rightarrow> cartItem list" where
  "cartAfter cart r = (case r of Inl _ \<Rightarrow> cart | Inr cart' \<Rightarrow> cart')"

section \<open>Notions of the specification\<close>

text \<open>
  Document order: the nodes of a forest in pre-order, a node before its descendants and
  those before its next sibling. \<open>preorder [c]\<close> is \<open>c\<close> followed by its descendants.
\<close>

fun preorder :: "category list \<Rightarrow> category list" where
  "preorder [] = []"
| "preorder (Category i n l p subs # cats) =
     Category i n l p subs # preorder subs @ preorder cats"

text \<open>One of the product's three category fields is the id \<open>i\<close>.\<close>

definition hasCategory :: "product \<Rightarrow> string \<Rightarrow> bool" where
  "hasCategory product i =
     (mainCategory product = i \<or> subCategory product = Some i
      \<or> subSubCategory product = Some i)"

text \<open>
  The Cartesian product over the non-empty axis lists only: an empty list is not a
  dimension, its axis stays unset in every combination and counts as a factor 1.
\<close>

definition axisValues :: "string list \<Rightarrow> string option list" where
  "axisValues xs = (if xs = [] then [None] else map Some xs)"

definition axisSize :: "string list \<Rightarrow> nat" where
  "axisSize xs = (if xs = [] then 1 else length xs)"

text \<open>The tags of the axes that are set, in the order color, ram, storage.\<close>

definition presentTags ::
  "string option \<Rightarrow> string option \<Rightarrow> string option \<Rightarrow> string list" where
  "presentTags c r s =
     (case c of None \<Rightarrow> [] | Some v \<Rightarrow> [''color-'' @ v])
     @ (case r of None \<Rightarrow> [] | Some v \<Rightarrow> [''ram-'' @ v])
     @ (case s of None \<Rightarrow> [] | Some v \<Rightarrow> [''storage-'' @ v])"

text \<open>
  One combination, at given purchased and selling prices: the id is the joined tags,
  the stock 0.
\<close>

definition combination ::
  "number \<Rightarrow> number \<Rightarrow> string option \<Rightarrow> string option \<Rightarrow> string option \<Rightarrow> productVariant"
  where
  "combination purchased selling c r s =
     \<lparr>variant_id = join ''-'' (presentTags c r s), color = c, ram = r, storage = s,
      purchasedPrice = purchased, sellingPrice = selling, stock = 0\<rparr>"

text \<open>Colors are the outer loop, storages the inner one.\<close>

definition cartesianVariants ::
  "number \<Rightarrow> number \<Rightarrow> string list \<Rightarrow> string list \<Rightarrow> string list \<Rightarrow> productVariant list"
  where
  "cartesianVariants purchased selling colors rams storages =
     concat (map (\<lambda>c. concat (map (\<lambda>r. map (\<lambda>s. combination purchased selling c r s)
                                           (axisValues storages))
                               (axisValues rams)))
                 (axisValues colors))"

text \<open>An option state none of whose axis values is the empty string.\<close>

definition noEmptyOption :: "optionState \<Rightarrow> bool" where
  "noEmptyOption st =
     ([] \<notin> set (colorOptions st @ ramOptions st @ storageOptions st))"

text \<open>A variant without its id: what is left is the axis values, the prices and the stock.\<close>

definition withoutId :: "productVariant \<Rightarrow> productVariant" where
  "withoutId v = v\<lparr>variant_id := []\<rparr>"

text \<open>Reading one of the three editable fields of a variant.\<close>

fun getField :: "variantField \<Rightarrow> productVariant \<Rightarrow> number" where
  "getField PurchasedPriceField v = purchasedPrice v"
| "getField SellingPriceField v = sellingPrice v"
| "getField StockField v = stock v"

text \<open>
  The quantity the cart holds of a product: that of its first line with the id, 0 when
  there is none.
\<close>

definition quantityInCart :: "cartItem list \<Rightarrow> string \<Rightarrow> jsNumber" where
  "quantityInCart cart pid =
     (case find (\<lambda>item. productId item = pid) cart of
        None \<Rightarrow> Finite 0 | Some item \<Rightarrow> quantity item)"

text \<open>
  The product's current variant stock: the stock of the first variant of the first
  product of the list that has the id, when there is one.
\<close>

definition variantStock :: "product list \<Rightarrow> string \<Rightarrow> number option" where
  "variantStock products pid =
     (case find (\<lambda>p. idOf p = Some pid) products of
        None \<Rightarrow> None
      | Some p \<Rightarrow> map_option stock (defaultVariantOf p))"

text \<open>The line that \<^verbatim>\<open>addToCart\<close> appends for a product that has no line yet.\<close>

definition newLine :: "string \<Rightarrow> product \<Rightarrow> productVariant \<Rightarrow> cartItem" where
  "newLine pid product v =
     \<lparr>productId = pid, item_name = product_name product, price = sellingPrice v,
      quantity = Finite 1\<rparr>"

section \<open>Sample data\<close>

definition sampleTree :: "category list" where
  "sampleTree =
     [Category ''c1'' ''Phones'' 1 None
        [Category ''c2'' ''Android'' 2 (Some ''c1'')
           [Category ''c3'' ''Foldables'' 3 (Some ''c2'') []],
         Category ''c4'' ''Feature phones'' 2 (Some ''c1'') []],
      Category ''c5'' ''Laptops'' 1 None []]"

definition sampleVariant :: productVariant where
  "sampleVariant =
     \<lparr>variant_id = ''default'', color = None, ram = None, storage = None,
      purchasedPrice = 80, sellingPrice = 100, stock = 1\<rparr>"

definition sampleProduct :: product where
  "sampleProduct =
     \<lparr>product_uid = Some ''p1'', product_id = None, product_name = ''Fold 5'',
      brand = ''Acme'', basePrice = 100, product_purchasedPrice = 80,
      product_sellingPrice = 100, mainCategory = ''c1'', subCategory = Some ''c2'',
      subSubCategory = Some ''c3'', description = ''A phone'', images = [''a.png''],
      variants = Some [sampleVariant]\<rparr>"

definition sampleForm :: priceForm where
  "sampleForm =
     \<lparr>form_basePrice = Some 90, form_purchasedPrice = Some 80,
      form_sellingPrice = Some 100\<rparr>"

definition sampleVariants :: "productVariant list" where
  "sampleVariants =
     [\<lparr>variant_id = ''color-Red'', color = Some ''Red'', ram = None, storage = None,
       purchasedPrice = 80, sellingPrice = 100, stock = 0\<rparr>,
      \<lparr>variant_id = ''color-Blue'', color = Some ''Blue'', ram = None, storage = None,
       purchasedPrice = 80, sellingPrice = 100, stock = 0\<rparr>]"

definition sampleCart :: "cartItem list" where
  "sampleCart =
     [\<lparr>productId = ''p1'', item_name = ''Fold 5'', price = 100, quantity = Finite 1\<rparr>,
      \<lparr>productId = ''p2'', item_name = ''Case'', price = 5, quantity = Finite 2\<rparr>]"

section \<open>Facts about the category resolver\<close>

lemma preorder_Cons: "preorder (c # cs) = c # preorder (subCategories c) @ preorder cs"
  by (cases c) simp

lemma find_append_list:
  "find P (xs @ ys) = (case find P xs of Some x \<Rightarrow> Some x | None \<Rightarrow> find P ys)"
  by (induction xs) auto

text \<open>The search returns the first node in document order that has the id.\<close>

lemma findCategory_find:
  "findCategory categoryId cats = find (\<lambda>c. cat_id c = categoryId) (preorder cats)"
  by (induction categoryId cats rule: findCategory.induct)
     (auto split: option.splits simp: find_append_list)

lemma findCategory_None_iff:
  "findCategory categoryId cats = None \<longleftrightarrow> categoryId \<notin> set (map cat_id (preorder cats))"
  by (auto simp: findCategory_find find_None_iff)

lemma set_preorder:
  "set (preorder cats) = (\<Union>c \<in> set cats. set (preorder [c]))"
  by (induction cats) (auto simp: preorder_Cons)

text \<open>The hierarchy check is a search for one of the product's ids in the subtree.\<close>

lemma isInHierarchy_iff:
  "isInHierarchy product c = (\<exists>d \<in> set (preorder [c]). hasCategory product (cat_id d))"
proof (induction product c rule: isInHierarchy.induct)
  case (1 product i n l p subs)
  show ?case
  proof (cases "hasCategory product i")
    case True
    then show ?thesis by (auto simp: hasCategory_def)
  next
    case False
    then have "isInHierarchy product (Category i n l p subs)
                 = (\<exists>x \<in> set subs. isInHierarchy product x)"
      by (simp add: hasCategory_def list_ex_iff)
    also have "\<dots> = (\<exists>x \<in> set subs. \<exists>d \<in> set (preorder [x]).
                         hasCategory product (cat_id d))"
      using 1 False by (auto simp: hasCategory_def)
    also have "\<dots> = (\<exists>d \<in> set (preorder subs). hasCategory product (cat_id d))"
      by (subst (2) set_preorder) blast
    finally show ?thesis using False by simp
  qed
qed

text \<open>When ids are unique, the first node with an id is the only one.\<close>

lemma find_unique_id:
  assumes "distinct (map cat_id (preorder cats))"
      and "node \<in> set (preorder cats)"
  shows "find (\<lambda>c. cat_id c = cat_id node) (preorder cats) = Some node"
proof -
  obtain c where c: "find (\<lambda>c. cat_id c = cat_id node) (preorder cats) = Some c"
    using assms(2) by (cases "find (\<lambda>c. cat_id c = cat_id node) (preorder cats)")
                      (auto simp: find_None_iff)
  then have "c \<in> set (preorder cats)" and "cat_id c = cat_id node"
    by (auto simp: find_Some_iff)
  with assms have "c = node"
    by (meson distinct_map inj_onD)
  with c show ?thesis by simp
qed

lemma foldl_append_acc:
  "foldl (\<lambda>acc x. acc @ g x) a xs = a @ concat (map g xs)"
  by (induction xs arbitrary: a) auto

lemma filter_preorder_concat:
  "filter P (preorder cats)
     = concat (map (\<lambda>c. (if P c then [c] else [])
                          @ filter P (preorder (subCategories c))) cats)"
  by (induction cats) (auto simp: preorder_Cons)

lemma flatten_concat:
  "flatten cats t
     = concat (map (\<lambda>cat. (if cat_level cat = t then [cat] else [])
                            @ flatten (subCategories cat) t) cats)"
proof -
  have step: "(\<lambda>acc cat. (let acc1 = (if cat_level cat = t then acc @ [cat] else acc)
                           in acc1 @ flatten (subCategories cat) t))
        = (\<lambda>acc cat. acc @ ((if cat_level cat = t then [cat] else [])
                              @ flatten (subCategories cat) t))"
    by (intro ext) (simp add: Let_def)
  show ?thesis
    by (subst flatten.simps) (simp only: step foldl_append_acc append_Nil)
qed

lemma flattenCategories_concat:
  "flattenCategories cats t
     = concat (map (\<lambda>cat. (if cat_level cat = t then [cat] else [])
                            @ flattenCategories (subCategories cat) t) cats)"
proof -
  have step: "(\<lambda>acc cat. if cat_level cat = t
                          then acc @ [cat] @ flattenCategories (subCategories cat) t
                          else acc @ flattenCategories (subCategories cat) t)
        = (\<lambda>acc cat. acc @ ((if cat_level cat = t then [cat] else [])
                              @ flattenCategories (subCategories cat) t))"
    by (intro ext) simp
  show ?thesis
    by (subst flattenCategories.simps) (simp only: step foldl_append_acc append_Nil)
qed

lemma flatten_filter:
  "flatten cats t = filter (\<lambda>c. cat_level c = t) (preorder cats)"
proof (induction cats t rule: flatten.induct)
  case (1 cats t)
  have "\<And>c. c \<in> set cats \<Longrightarrow>
          flatten (subCategories c) t
            = filter (\<lambda>c. cat_level c = t) (preorder (subCategories c))"
    using 1 by blast
  then show ?case
    by (subst flatten_concat, subst filter_preorder_concat) (simp cong: map_cong)
qed

lemma flattenCategories_filter:
  "flattenCategories cats t = filter (\<lambda>c. cat_level c = t) (preorder cats)"
proof (induction cats t rule: flattenCategories.induct)
  case (1 cats t)
  have "\<And>c. c \<in> set cats \<Longrightarrow>
          flattenCategories (subCategories c) t
            = filter (\<lambda>c. cat_level c = t) (preorder (subCategories c))"
    using 1 by blast
  then show ?case
    by (subst flattenCategories_concat, subst filter_preorder_concat) (simp cong: map_cong)
qed

lemma preorder_sampleTree:
  "map cat_id (preorder sampleTree) = [''c1'', ''c2'', ''c3'', ''c4'', ''c5'']"
  by (simp add: sampleTree_def)

section \<open>Claims about the category resolver\<close>

text \<open>
  C1, as stated: for a non-empty \<open>categoryId\<close> that occurs nowhere in the tree,
  \<^verbatim>\<open>isProductInCategory\<close> is false for every product. It is not: the three direct
  comparisons come before the tree search, so a product filed under an id the tree does
  not hold is still accepted for that id. Here the id \<^verbatim>\<open>c9\<close> is not in the sample tree and
  the product's main category is \<^verbatim>\<open>c9\<close>.
\<close>

theorem isProductInCategory_absent_id_counterexample:
  "''c9'' \<noteq> [] \<and> ''c9'' \<notin> set (map cat_id (preorder sampleTree))
   \<and> isProductInCategory sampleTree (sampleProduct\<lparr>mainCategory := ''c9''\<rparr>) ''c9''"
  by (simp add: preorder_sampleTree isProductInCategory_def sampleProduct_def)

text \<open>
  C1, amended: for a non-empty \<open>categoryId\<close> that occurs nowhere in the tree,
  \<^verbatim>\<open>isProductInCategory\<close> is true exactly when \<open>categoryId\<close> is one of the product's three
  category fields; so it is false for every product that none of whose three fields is
  \<open>categoryId\<close>.
\<close>

theorem isProductInCategory_absent_id:
  assumes "categoryId \<noteq> []"
      and "categoryId \<notin> set (map cat_id (preorder categories))"
  shows "isProductInCategory categories product categoryId
           \<longleftrightarrow> (mainCategory product = categoryId
                \<or> subCategory product = Some categoryId
                \<or> subSubCategory product = Some categoryId)"
proof -
  have "findCategory categoryId categories = None"
    using assms(2) by (simp add: findCategory_None_iff)
  then show ?thesis
    using assms(1) by (simp add: isProductInCategory_def)
qed

text \<open>
  C1, amended, at the id \<^verbatim>\<open>c9\<close> and the sample product, whose fields are \<^verbatim>\<open>c1\<close>, \<^verbatim>\<open>c2\<close>
  and \<^verbatim>\<open>c3\<close>: the filter rejects it.
\<close>

theorem isProductInCategory_absent_id_witness:
  "''c9'' \<noteq> [] \<and> ''c9'' \<notin> set (map cat_id (preorder sampleTree))
   \<and> \<not> isProductInCategory sampleTree sampleProduct ''c9''"
proof -
  have h1: "''c9'' \<noteq> []" by simp
  have h2: "''c9'' \<notin> set (map cat_id (preorder sampleTree))"
    by (simp add: preorder_sampleTree)
  show ?thesis
    using h1 h2 isProductInCategory_absent_id [OF h1 h2, of sampleProduct]
    by (simp add: sampleProduct_def)
qed

text \<open>
  C3: when \<open>categoryId\<close> occurs in the tree, the search finds the node with that id: the
  first in document order, which is the only one when the ids of the tree are distinct.
  A product one of whose three category fields is the id of that node or of one of its
  descendants passes \<^verbatim>\<open>isProductInCategory\<close>.
\<close>

theorem isProductInCategory_descendant:
  assumes "categoryId \<in> set (map cat_id (preorder categories))"
  shows "\<exists>node. find (\<lambda>c. cat_id c = categoryId) (preorder categories) = Some node
           \<and> node \<in> set (preorder categories) \<and> cat_id node = categoryId
           \<and> (\<forall>d \<in> set (preorder [node]).
                 mainCategory product = cat_id d
                 \<or> subCategory product = Some (cat_id d)
                 \<or> subSubCategory product = Some (cat_id d)
                 \<longrightarrow> isProductInCategory categories product categoryId)
           \<and> (distinct (map cat_id (preorder categories)) \<longrightarrow>
                (\<forall>n \<in> set (preorder categories). cat_id n = categoryId \<longrightarrow> n = node))"
proof -
  obtain node where node: "findCategory categoryId categories = Some node"
    using assms findCategory_None_iff [of categoryId categories] by auto
  then have found: "find (\<lambda>c. cat_id c = categoryId) (preorder categories) = Some node"
    by (simp add: findCategory_find)
  then have mem: "node \<in> set (preorder categories)" and ident: "cat_id node = categoryId"
    by (auto simp: find_Some_iff)
  have "isProductInCategory categories product categoryId"
    if "d \<in> set (preorder [node])" and "hasCategory product (cat_id d)" for d
  proof -
    have "isInHierarchy product node"
      using that isInHierarchy_iff by blast
    then show ?thesis
      using node by (simp add: isProductInCategory_def)
  qed
  moreover have "n = node"
    if "distinct (map cat_id (preorder categories))" and "n \<in> set (preorder categories)"
      and "cat_id n = categoryId" for n
    using find_unique_id [OF that(1) that(2)] that(3) found by simp
  ultimately show ?thesis
    using found mem ident unfolding hasCategory_def by blast
qed

text \<open>
  C3 at the sample tree: \<^verbatim>\<open>c1\<close> is found, \<^verbatim>\<open>c3\<close> is a grandchild of it, and a product
  filed only under \<^verbatim>\<open>c3\<close> passes the filter for \<^verbatim>\<open>c1\<close>.
\<close>

theorem isProductInCategory_descendant_witness:
  "''c1'' \<in> set (map cat_id (preorder sampleTree))
   \<and> isProductInCategory sampleTree
        (sampleProduct\<lparr>mainCategory := ''c3'', subCategory := None, subSubCategory := None\<rparr>)
        ''c1''"
proof -
  let ?p = "sampleProduct\<lparr>mainCategory := ''c3'', subCategory := None,
                           subSubCategory := None\<rparr>"
  have h: "''c1'' \<in> set (map cat_id (preorder sampleTree))"
    by (simp add: preorder_sampleTree)
  obtain node where
    f: "find (\<lambda>c. cat_id c = ''c1'') (preorder sampleTree) = Some node" and
    d: "\<forall>d \<in> set (preorder [node]).
          mainCategory ?p = cat_id d \<or> subCategory ?p = Some (cat_id d)
          \<or> subSubCategory ?p = Some (cat_id d)
          \<longrightarrow> isProductInCategory sampleTree ?p ''c1''"
    using isProductInCategory_descendant [OF h, of ?p] by blast
  have "node = hd sampleTree"
    using f by (simp add: sampleTree_def)
  then have "Category ''c3'' ''Foldables'' 3 (Some ''c2'') [] \<in> set (preorder [node])"
    by (simp add: sampleTree_def)
  with d have "isProductInCategory sampleTree ?p ''c1''"
    by (auto simp: sampleProduct_def)
  with h show ?thesis by simp
qed

text \<open>
  C9: both \<^verbatim>\<open>flatten\<close> helpers return the nodes whose level is the target level, each
  once per occurrence and no other node, in document order; and for a new category of
  level 1 the list of parent candidates is empty.
\<close>

theorem flatten_level_document_order:
  "flatten categories t = filter (\<lambda>c. cat_level c = t) (preorder categories)
   \<and> flattenCategories categories t = filter (\<lambda>c. cat_level c = t) (preorder categories)
   \<and> getAvailableParentCategories categories 1 = []
   \<and> getAvailableParentCategories_selected categories 1 = []"
  by (simp add: flatten_filter flattenCategories_filter getAvailableParentCategories_def
        getAvailableParentCategories_selected_def)

text \<open>
  C9 at the sample tree: the candidates for a new level-3 category are the two level-2
  nodes, \<^verbatim>\<open>c2\<close> before \<^verbatim>\<open>c4\<close>.
\<close>

theorem flatten_level_document_order_witness:
  "map cat_id (flatten sampleTree 2) = [''c2'', ''c4'']
   \<and> map cat_id (flattenCategories sampleTree 2) = [''c2'', ''c4'']
   \<and> getAvailableParentCategories sampleTree 1 = []"
  using flatten_level_document_order [of sampleTree 2]
  by (simp add: sampleTree_def)

section \<open>Facts about JavaScript numbers\<close>

lemma safe_below_overflowBound: "(2::real) ^ 53 < overflowBound"
proof -
  have "(2::real) ^ 53 < 2 ^ 1024"
    by (rule power_strict_increasing) simp_all
  then show ?thesis
    by (simp only: overflowBound_def power_int_def) simp
qed

lemma find_rev_upto:
  assumes "a \<le> k" and "k \<le> b" and "P k" and "\<forall>j. k < j \<and> j \<le> b \<longrightarrow> \<not> P j"
  shows "find P (rev [a..b]) = Some k"
  using assms
proof (induction "nat (b - k)" arbitrary: b)
  case 0
  then have "b = k" by simp
  with 0 show ?case by (simp add: upto_rec2)
next
  case (Suc n)
  then have "k < b" by linarith
  with Suc.prems have nb: "\<not> P b" by simp
  have "a \<le> b" using Suc.prems by linarith
  then have "rev [a..b] = b # rev [a..b - 1]" by (simp add: upto_rec2)
  moreover have "find P (rev [a..b - 1]) = Some k"
    using Suc \<open>k < b\<close> by (intro Suc.hyps) auto
  ultimately show ?case using nb by simp
qed

lemma roundHalfEven_int: "roundHalfEven (of_int z) = z"
  by (simp add: roundHalfEven_def)

lemma binade_eq:
  assumes "-1022 \<le> k" and "k \<le> 1023" and "2 powi k \<le> \<bar>x\<bar>" and "\<bar>x\<bar> < 2 powi (k + 1)"
  shows "binade x = k"
proof -
  have "\<not> 2 powi j \<le> \<bar>x\<bar>" if "k < j" for j :: int
  proof -
    have "(2::real) powi (k + 1) \<le> 2 powi j"
      using that by (intro power_int_increasing) auto
    with assms(4) show ?thesis by linarith
  qed
  then have "find (\<lambda>k. 2 powi k \<le> \<bar>x\<bar>) (rev [-1022..1023]) = Some k"
    using assms(1-3) by (intro find_rev_upto) blast+
  then show ?thesis by (simp only: binade_def option.case)
qed


lemma roundDouble_exact:
  assumes "x / 2 powi (binade x - 52) = of_int z" and "\<bar>x\<bar> < overflowBound"
  shows "roundDouble x = Finite x"
proof -
  let ?u = "(2::real) powi (binade x - 52)"
  have u: "?u \<noteq> 0" by simp
  have "of_int (roundHalfEven (x / ?u)) * ?u = (x / ?u) * ?u"
    by (simp only: assms(1) roundHalfEven_int)
  also have "\<dots> = x" using u by simp
  finally have "of_int (roundHalfEven (x / ?u)) * ?u = x" .
  then show ?thesis
    using assms(2) by (auto simp: roundDouble_def Let_def)
qed

lemma roundDouble_int:
  assumes "\<bar>m\<bar> \<le> 2 ^ 53"
  shows "roundDouble (of_int m) = Finite (of_int m)"
proof (cases "m = 0")
  case True
  have "(0::real) / 2 powi (binade 0 - 52) = of_int 0" by simp
  moreover have "\<bar>0::real\<bar> < overflowBound"
    using safe_below_overflowBound by (simp add: less_trans [OF zero_less_power])
  ultimately have "roundDouble 0 = Finite 0" by (rule roundDouble_exact)
  with True show ?thesis by simp
next
  case False
  then have "1 \<le> nat \<bar>m\<bar>" by simp
  then obtain k :: nat where k: "2 ^ k \<le> nat \<bar>m\<bar>" "nat \<bar>m\<bar> < 2 ^ (k + 1)"
    using ex_power_ivl1 [of 2 "nat \<bar>m\<bar>"] by auto
  have "int (2 ^ k) \<le> int (nat \<bar>m\<bar>)" and "int (nat \<bar>m\<bar>) < int (2 ^ (k + 1))"
    using k by (simp_all only: of_nat_le_iff of_nat_less_iff)
  then have lo: "(2::int) ^ k \<le> \<bar>m\<bar>" and hi: "\<bar>m\<bar> < (2::int) ^ (k + 1)"
    by simp_all
  have "(2::int) ^ k \<le> 2 ^ 53" using lo assms by linarith
  then have k53: "k \<le> 53"
    by (rule power_le_imp_le_exp [rotated]) simp
  have rlo: "(2::real) powi int k \<le> \<bar>of_int m\<bar>"
    using lo by (simp add: power_int_of_nat flip: of_int_abs)
  have rhi: "\<bar>of_int m :: real\<bar> < 2 powi (int k + 1)"
  proof -
    have "(of_int \<bar>m\<bar> :: real) < of_int (2 ^ (k + 1))"
      using hi by (simp only: of_int_less_iff)
    moreover have "int k + 1 = int (k + 1)" by simp
    ultimately show ?thesis
      by (simp only: power_int_of_nat of_int_power of_int_numeral of_int_abs)
  qed
  have b: "binade (of_int m) = int k"
    using k53 rlo rhi by (intro binade_eq) auto
  have "\<exists>z. real_of_int m / 2 powi (int k - 52) = of_int z"
  proof (cases "k \<le> 52")
    case True
    then have "int k - 52 = - int (52 - k)" by simp
    then have "(2::real) powi (int k - 52) = inverse (2 ^ (52 - k))"
      by (simp only: power_int_minus power_int_of_nat)
    then have "real_of_int m / 2 powi (int k - 52) = of_int (m * 2 ^ (52 - k))"
      by (simp add: divide_inverse)
    then show ?thesis by blast
  next
    case False
    with k53 have k: "k = 53" by simp
    with lo assms have "\<bar>m\<bar> = 2 ^ 53" by simp
    then have "even m" by (metis dvd_abs_iff even_numeral even_power zero_less_numeral)
    then obtain z where "m = 2 * z" by blast
    then have "real_of_int m / 2 powi (int k - 52) = of_int z"
      using k by simp
    then show ?thesis by blast
  qed
  then obtain z where z: "real_of_int m / 2 powi (binade (of_int m) - 52) = of_int z"
    using b by auto
  have "\<bar>real_of_int m\<bar> \<le> 2 ^ 53"
    using assms by (metis of_int_abs of_int_le_iff of_int_numeral of_int_power)
  also note safe_below_overflowBound
  finally have "\<bar>real_of_int m\<bar> < overflowBound" .
  from roundDouble_exact [OF z this] show ?thesis .
qed

lemma roundDouble_two_53_plus_1: "roundDouble (2 ^ 53 + 1) = Finite (2 ^ 53)"
proof -
  have b: "binade (2 ^ 53 + 1) = 53"
    by (intro binade_eq) (simp_all add: power_int_def)
  then have b': "binade 9007199254740993 = 53" by simp
  have "roundHalfEven (9007199254740993 / 2) = 4503599627370496"
    by (simp add: roundHalfEven_def Let_def)
  moreover have "(9007199254740992::real) < overflowBound"
    using safe_below_overflowBound by simp
  ultimately show ?thesis
    by (simp add: roundDouble_def Let_def b' power_int_def)
qed

text \<open>Adding 1 to an integer of magnitude below \<open>2 ^ 53\<close> is exact.\<close>

lemma jsAdd_one_int:
  assumes "\<bar>n\<bar> < 2 ^ 53"
  shows "jsAdd (Finite (of_int n)) (Finite 1) = Finite (of_int (n + 1))"
proof -
  have "\<bar>n + 1\<bar> \<le> 2 ^ 53" using assms by linarith
  from roundDouble_int [OF this] show ?thesis by simp
qed

text \<open>At \<open>2 ^ 53\<close> it is not: the sum rounds back to \<open>2 ^ 53\<close>.\<close>

lemma jsAdd_one_two_53: "jsAdd (Finite (2 ^ 53)) (Finite 1) = Finite (2 ^ 53)"
  using roundDouble_two_53_plus_1 by simp

lemma jsGreaterEq_Finite [simp]: "jsGreaterEq (Finite x) (Finite y) = (y \<le> x)"
  by (auto simp: jsGreaterEq_def)

lemma jsGreater_Finite [simp]: "jsGreater (Finite x) (Finite y) = (y < x)"
  by (simp add: jsGreater_def)

lemma jsGreaterEq_not_NaN: "q \<noteq> NaN \<Longrightarrow> jsGreaterEq q (Finite y) = (\<not> jsLess q (Finite y))"
  by (simp add: jsGreaterEq_def)

section \<open>Facts about the variant generator\<close>

text \<open>
  On an axis value that is a non-empty string the tag is kept, so the id that
  \<^verbatim>\<open>addVariant\<close> builds is the joined tags of the axes that are set.
\<close>

lemma addVariant_combination:
  assumes "c \<noteq> Some []" and "r \<noteq> Some []" and "s \<noteq> Some []"
      and "c \<noteq> None \<or> r \<noteq> None \<or> s \<noteq> None"
  shows "addVariant purchased selling c r s = combination purchased selling c r s"
  using assms
  by (cases c; cases r; cases s)
     (auto simp: addVariant_def combination_def presentTags_def axisTag_def
        List.map_filter_def Let_def)

text \<open>Whatever the axis values, everything but the id is that of the combination.\<close>

lemma withoutId_addVariant:
  "withoutId (addVariant purchased selling c r s)
     = withoutId (combination purchased selling c r s)"
  by (simp add: withoutId_def addVariant_def combination_def Let_def)

text \<open>The nest of loops and tests is one triple loop over the axes that are set.\<close>

lemma generateVariants_loops:
  assumes "colors \<noteq> [] \<or> rams \<noteq> [] \<or> storages \<noteq> []"
  shows "generateVariants form colors rams storages
           = concat (map (\<lambda>c. concat (map (\<lambda>r.
                 map (\<lambda>s. addVariant (orElse (form_purchasedPrice form) 0)
                              (orElse (form_sellingPrice form)
                                 (orElse (form_basePrice form) 0)) c r s)
                   (axisValues storages)) (axisValues rams))) (axisValues colors))"
  using assms
  by (simp add: generateVariants_def Let_def axisValues_def comp_def)

lemma generateVariants_cartesianVariants:
  assumes "colors \<noteq> [] \<or> rams \<noteq> [] \<or> storages \<noteq> []"
      and "[] \<notin> set (colors @ rams @ storages)"
  shows "generateVariants form colors rams storages
           = cartesianVariants (orElse (form_purchasedPrice form) 0)
               (orElse (form_sellingPrice form) (orElse (form_basePrice form) 0))
               colors rams storages"
proof -
  have same: "addVariant purchased selling c r s = combination purchased selling c r s"
    if "c \<in> set (axisValues colors)" and "r \<in> set (axisValues rams)"
      and "s \<in> set (axisValues storages)" for c r s purchased selling
    using that assms addVariant_combination [of c r s purchased selling]
    by (auto simp: axisValues_def split: if_splits)
  show ?thesis
    unfolding generateVariants_loops [OF assms(1)] cartesianVariants_def
    by (intro arg_cong [where f = concat] map_cong refl) (simp add: same)
qed

lemma generateVariants_withoutId:
  assumes "colors \<noteq> [] \<or> rams \<noteq> [] \<or> storages \<noteq> []"
  shows "map withoutId (generateVariants form colors rams storages)
           = map withoutId
               (cartesianVariants (orElse (form_purchasedPrice form) 0)
                  (orElse (form_sellingPrice form) (orElse (form_basePrice form) 0))
                  colors rams storages)"
  unfolding generateVariants_loops [OF assms] cartesianVariants_def
  by (simp add: map_concat comp_def withoutId_addVariant)

lemma length_generateVariants:
  "length (generateVariants form colors rams storages)
     = axisSize colors * axisSize rams * axisSize storages"
  by (simp add: generateVariants_def axisSize_def Let_def length_concat comp_def
        sum_list_triv)

lemma stock_addVariant: "stock (addVariant pp sp c r s) = 0"
  by (simp add: addVariant_def Let_def)

lemma stock_generateVariants:
  "v \<in> set (generateVariants form colors rams storages) \<Longrightarrow> stock v = 0"
  by (auto simp: generateVariants_def Let_def stock_addVariant split: if_splits)

text \<open>No handler puts the empty string into an option list.\<close>

lemma noEmptyOption_step: "noEmptyOption st \<Longrightarrow> noEmptyOption (optionStep st e)"
  by (cases e)
     (auto simp: noEmptyOption_def addColorOption_def addRamOption_def
        addStorageOption_def removeColorOption_def removeRamOption_def
        removeStorageOption_def split: option.splits)

lemma noEmptyOption_foldl:
  "noEmptyOption st \<Longrightarrow> noEmptyOption (foldl optionStep st events)"
  by (induction events arbitrary: st) (simp_all add: noEmptyOption_step)

lemma noEmptyOption_optionsAfter: "noEmptyOption (optionsAfter events)"
  unfolding optionsAfter_def
  by (rule noEmptyOption_foldl) (simp add: noEmptyOption_def initialOptions_def)

section \<open>Claims about the variant generator\<close>

text \<open>
  C2: for every triple of axis lists the number of variants is the product of the sizes
  of the non-empty lists and every variant has stock 0. When at least one list is
  non-empty, the variants are those of the Cartesian product over the non-empty lists
  only, colors outermost and storages innermost, in axis values, prices, stock and
  order; and the ids are the tags of the axes that are set joined by \<^verbatim>\<open>-\<close> in the order
  color, ram, storage whenever no axis value is the empty string. The lists the page
  passes never hold the empty string: after any sequence of the handlers' actions the
  three option lists are free of it, so every call the page makes yields exactly the
  Cartesian product.
\<close>

theorem generateVariants_cartesian:
  "length (generateVariants form colors rams storages)
     = axisSize colors * axisSize rams * axisSize storages
   \<and> (\<forall>v \<in> set (generateVariants form colors rams storages). stock v = 0)
   \<and> (colors \<noteq> [] \<or> rams \<noteq> [] \<or> storages \<noteq> [] \<longrightarrow>
        map withoutId (generateVariants form colors rams storages)
          = map withoutId
              (cartesianVariants (orElse (form_purchasedPrice form) 0)
                 (orElse (form_sellingPrice form) (orElse (form_basePrice form) 0))
                 colors rams storages))
   \<and> ((colors \<noteq> [] \<or> rams \<noteq> [] \<or> storages \<noteq> [])
        \<and> [] \<notin> set (colors @ rams @ storages) \<longrightarrow>
        generateVariants form colors rams storages
          = cartesianVariants (orElse (form_purchasedPrice form) 0)
              (orElse (form_sellingPrice form) (orElse (form_basePrice form) 0))
              colors rams storages)
   \<and> [] \<notin> set (colorOptions (optionsAfter events) @ ramOptions (optionsAfter events)
                  @ storageOptions (optionsAfter events))
   \<and> (colorOptions (optionsAfter events) \<noteq> [] \<or> ramOptions (optionsAfter events) \<noteq> []
        \<or> storageOptions (optionsAfter events) \<noteq> [] \<longrightarrow>
        generateVariants form (colorOptions (optionsAfter events))
            (ramOptions (optionsAfter events)) (storageOptions (optionsAfter events))
          = cartesianVariants (orElse (form_purchasedPrice form) 0)
              (orElse (form_sellingPrice form) (orElse (form_basePrice form) 0))
              (colorOptions (optionsAfter events)) (ramOptions (optionsAfter events))
              (storageOptions (optionsAfter events)))"
proof -
  have inv: "[] \<notin> set (colorOptions (optionsAfter events)
                       @ ramOptions (optionsAfter events)
                       @ storageOptions (optionsAfter events))"
    using noEmptyOption_optionsAfter [of events] unfolding noEmptyOption_def .
  have c1: "length (generateVariants form colors rams storages)
              = axisSize colors * axisSize rams * axisSize storages"
    by (rule length_generateVariants)
  have c2: "\<forall>v \<in> set (generateVariants form colors rams storages). stock v = 0"
    using stock_generateVariants by blast
  have c3: "colors \<noteq> [] \<or> rams \<noteq> [] \<or> storages \<noteq> [] \<longrightarrow>
        map withoutId (generateVariants form colors rams storages)
          = map withoutId
              (cartesianVariants (orElse (form_purchasedPrice form) 0)
                 (orElse (form_sellingPrice form) (orElse (form_basePrice form) 0))
                 colors rams storages)"
    using generateVariants_withoutId by blast
  have c4: "(colors \<noteq> [] \<or> rams \<noteq> [] \<or> storages \<noteq> [])
        \<and> [] \<notin> set (colors @ rams @ storages) \<longrightarrow>
        generateVariants form colors rams storages
          = cartesianVariants (orElse (form_purchasedPrice form) 0)
              (orElse (form_sellingPrice form) (orElse (form_basePrice form) 0))
              colors rams storages"
    using generateVariants_cartesianVariants by blast
  have c6: "colorOptions (optionsAfter events) \<noteq> [] \<or> ramOptions (optionsAfter events) \<noteq> []
        \<or> storageOptions (optionsAfter events) \<noteq> [] \<longrightarrow>
        generateVariants form (colorOptions (optionsAfter events))
            (ramOptions (optionsAfter events)) (storageOptions (optionsAfter events))
          = cartesianVariants (orElse (form_purchasedPrice form) 0)
              (orElse (form_sellingPrice form) (orElse (form_basePrice form) 0))
              (colorOptions (optionsAfter events)) (ramOptions (optionsAfter events))
              (storageOptions (optionsAfter events))"
    using generateVariants_cartesianVariants [OF _ inv] by blast
  show ?thesis
    by (rule conjI [OF c1 conjI [OF c2 conjI [OF c3 conjI [OF c4 conjI [OF inv c6]]]]])
qed

text \<open>
  C2 at the lists of the specification, as the page builds them: adding the colors
  \<^verbatim>\<open>Red\<close> and \<^verbatim>\<open>Blue\<close> and the storage \<^verbatim>\<open>128GB\<close> (an empty answer in between is
  ignored) gives the two variants \<^verbatim>\<open>color-Red-storage-128GB\<close> and
  \<^verbatim>\<open>color-Blue-storage-128GB\<close>, in this order.
\<close>

theorem generateVariants_cartesian_witness:
  "optionsAfter [AddColor (Some ''Red''), AddColor (Some []), AddColor (Some ''Blue''),
                 AddStorage (Some ''128GB'')]
     = \<lparr>colorOptions = [''Red'', ''Blue''], ramOptions = [],
        storageOptions = [''128GB'']\<rparr>
   \<and> length (generateVariants sampleForm [''Red'', ''Blue''] [] [''128GB'']) = 2
   \<and> map variant_id (generateVariants sampleForm [''Red'', ''Blue''] [] [''128GB''])
       = [''color-Red-storage-128GB'', ''color-Blue-storage-128GB'']
   \<and> map stock (generateVariants sampleForm [''Red'', ''Blue''] [] [''128GB'']) = [0, 0]"
proof -
  let ?events = "[AddColor (Some ''Red''), AddColor (Some []), AddColor (Some ''Blue''),
                  AddStorage (Some ''128GB'')]"
  have st: "optionsAfter ?events
              = \<lparr>colorOptions = [''Red'', ''Blue''], ramOptions = [],
                 storageOptions = [''128GB'']\<rparr>"
    by (simp add: optionsAfter_def initialOptions_def addColorOption_def
          addStorageOption_def)
  have "generateVariants sampleForm [''Red'', ''Blue''] [] [''128GB'']
          = cartesianVariants (orElse (form_purchasedPrice sampleForm) 0)
              (orElse (form_sellingPrice sampleForm) (orElse (form_basePrice sampleForm) 0))
              [''Red'', ''Blue''] [] [''128GB'']"
    using generateVariants_cartesian [of sampleForm "[''Red'', ''Blue'']" "[]"
        "[''128GB'']" ?events]
    by (simp add: st)
  then show ?thesis
    by (simp add: st cartesianVariants_def axisValues_def combination_def
          presentTags_def)
qed

text \<open>
  C6, as stated: with the three axis lists empty, the one variant has the purchased and
  selling prices of the form. It has not when the form's selling price is 0 (or not
  yet a number): \<^verbatim>\<open>watch('sellingPrice') || basePrice\<close> then takes the base price. Here
  the form holds the selling price 0 and the base price 50, and the variant sells at
  50.
\<close>

theorem generateVariants_default_counterexample:
  "form_sellingPrice \<lparr>form_basePrice = Some 50, form_purchasedPrice = Some 80,
                      form_sellingPrice = Some 0\<rparr> = Some 0
   \<and> map sellingPrice
        (generateVariants \<lparr>form_basePrice = Some 50, form_purchasedPrice = Some 80,
                            form_sellingPrice = Some 0\<rparr> [] [] []) = [50]"
  by (simp add: generateVariants_def orElse_def Let_def)

text \<open>
  C6, amended: for every state of the form, with the three axis lists empty the result
  is exactly one variant, with no color, ram or storage, the id \<^verbatim>\<open>'default'\<close> and stock
  0; its purchased price is the form's purchased price, or 0 when the form has none;
  its selling price is the form's selling price when that is a number other than 0,
  and otherwise the form's base price, or 0 when the form has none.
\<close>

theorem generateVariants_default:
  "\<exists>v. generateVariants form [] [] [] = [v]
       \<and> variant_id v = ''default'' \<and> color v = None \<and> ram v = None
       \<and> storage v = None \<and> stock v = 0
       \<and> (\<forall>p. form_purchasedPrice form = Some p \<longrightarrow> purchasedPrice v = p)
       \<and> (form_purchasedPrice form = None \<longrightarrow> purchasedPrice v = 0)
       \<and> (\<forall>s. form_sellingPrice form = Some s \<and> s \<noteq> 0 \<longrightarrow> sellingPrice v = s)
       \<and> (form_sellingPrice form = None \<or> form_sellingPrice form = Some 0 \<longrightarrow>
            (\<forall>b. form_basePrice form = Some b \<longrightarrow> sellingPrice v = b)
            \<and> (form_basePrice form = None \<longrightarrow> sellingPrice v = 0))"
  by (auto simp: generateVariants_def Let_def orElse_def split: option.splits)

text \<open>
  C6, amended, at the sample form, whose purchased price is 80 and selling price 100
  (and base price 90): the one variant has these two prices.
\<close>

theorem generateVariants_default_witness:
  "generateVariants sampleForm [] [] []
     = [\<lparr>variant_id = ''default'', color = None, ram = None, storage = None,
         purchasedPrice = 80, sellingPrice = 100, stock = 0\<rparr>]"
proof -
  obtain v where v: "generateVariants sampleForm [] [] [] = [v]"
    and f: "variant_id v = ''default''" "color v = None" "ram v = None"
      "storage v = None" "stock v = 0"
    and p: "\<forall>p. form_purchasedPrice sampleForm = Some p \<longrightarrow> purchasedPrice v = p"
    and s: "\<forall>s. form_sellingPrice sampleForm = Some s \<and> s \<noteq> 0 \<longrightarrow> sellingPrice v = s"
    using generateVariants_default [of sampleForm] by blast
  have "purchasedPrice v = 80" using p by (simp add: sampleForm_def)
  moreover have "sellingPrice v = 100" using s by (simp add: sampleForm_def)
  ultimately have "v = \<lparr>variant_id = ''default'', color = None, ram = None,
                         storage = None, purchasedPrice = 80, sellingPrice = 100,
                         stock = 0\<rparr>"
    using f by (cases v) simp
  with v show ?thesis by simp
qed

text \<open>
  C8: \<^verbatim>\<open>updateVariant\<close> returns a list of the same length in which, position by
  position, the id and the three axis values are those of the input, and each of the
  three editable fields is the given value when the variant's id is \<open>variantId\<close> and
  the field is the one named, and the input's value otherwise.
\<close>

theorem updateVariant_frame:
  "length (updateVariant vs variantId field x) = length vs
   \<and> (\<forall>i < length vs.
         variant_id (updateVariant vs variantId field x ! i) = variant_id (vs ! i)
         \<and> color (updateVariant vs variantId field x ! i) = color (vs ! i)
         \<and> ram (updateVariant vs variantId field x ! i) = ram (vs ! i)
         \<and> storage (updateVariant vs variantId field x ! i) = storage (vs ! i)
         \<and> (\<forall>g. getField g (updateVariant vs variantId field x ! i)
                  = (if variant_id (vs ! i) = variantId \<and> g = field then x
                     else getField g (vs ! i))))"
proof -
  have "getField g (setField field x v) = (if g = field then x else getField g v)"
    for g v by (cases g; cases field) simp_all
  moreover have "variant_id (setField field x v) = variant_id v
      \<and> color (setField field x v) = color v \<and> ram (setField field x v) = ram v
      \<and> storage (setField field x v) = storage v" for v
    by (cases field) simp_all
  ultimately show ?thesis
    by (simp add: updateVariant_def)
qed

text \<open>
  C8 at the two sample variants: setting the stock of \<^verbatim>\<open>color-Blue\<close> to 7 changes the
  stock of the second variant, and neither its price, its id nor the first variant.
\<close>

theorem updateVariant_frame_witness:
  "length (updateVariant sampleVariants ''color-Blue'' StockField 7) = 2
   \<and> stock (updateVariant sampleVariants ''color-Blue'' StockField 7 ! 1) = 7
   \<and> sellingPrice (updateVariant sampleVariants ''color-Blue'' StockField 7 ! 1) = 100
   \<and> variant_id (updateVariant sampleVariants ''color-Blue'' StockField 7 ! 1)
       = ''color-Blue''
   \<and> stock (updateVariant sampleVariants ''color-Blue'' StockField 7 ! 0) = 0"
proof -
  let ?r = "updateVariant sampleVariants ''color-Blue'' StockField 7"
  note frame = updateVariant_frame [of sampleVariants "''color-Blue''" StockField 7]
  have len: "length sampleVariants = 2"
    by (simp add: sampleVariants_def)
  have i0: "0 < length sampleVariants" and i1: "1 < length sampleVariants"
    using len by simp_all
  have v0: "variant_id (sampleVariants ! 0) = ''color-Red''
            \<and> getField StockField (sampleVariants ! 0) = 0"
    by (simp add: sampleVariants_def)
  have v1: "variant_id (sampleVariants ! 1) = ''color-Blue''
            \<and> getField SellingPriceField (sampleVariants ! 1) = 100"
    by (simp add: sampleVariants_def)
  from frame i1 have
    "getField StockField (?r ! 1)
       = (if variant_id (sampleVariants ! 1) = ''color-Blue'' \<and> StockField = StockField
          then 7 else getField StockField (sampleVariants ! 1))"
    by blast
  with v1 have a: "stock (?r ! 1) = 7" by simp
  from frame i1 have
    "getField SellingPriceField (?r ! 1)
       = (if variant_id (sampleVariants ! 1) = ''color-Blue''
             \<and> SellingPriceField = StockField
          then 7 else getField SellingPriceField (sampleVariants ! 1))"
    by blast
  with v1 have b: "sellingPrice (?r ! 1) = 100" by simp
  from frame i1 have "variant_id (?r ! 1) = variant_id (sampleVariants ! 1)"
    by blast
  with v1 have c: "variant_id (?r ! 1) = ''color-Blue''" by simp
  from frame i0 have
    "getField StockField (?r ! 0)
       = (if variant_id (sampleVariants ! 0) = ''color-Blue'' \<and> StockField = StockField
          then 7 else getField StockField (sampleVariants ! 0))"
    by blast
  with v0 have d: "stock (?r ! 0) = 0" by simp
  from frame len have "length ?r = 2" by simp
  with a b c d show ?thesis by simp
qed

section \<open>Facts about the cart\<close>

text \<open>\<^verbatim>\<open>addToCart\<close> on a product that has an id and a first variant.\<close>

lemma addToCart_with_id:
  assumes "idOf product = Some pid" and "pid \<noteq> []"
      and "variants product = Some (v # vs)"
  shows "addToCart cart product =
           (if jsGreaterEq (quantityInCart cart pid) (Finite (stock v))
            then Inl (StockExceeded (stock v))
            else if find (\<lambda>item. productId item = pid) cart = None
            then Inr (cart @ [newLine pid product v])
            else Inr (map (\<lambda>item. if productId item = pid
                                   then item\<lparr>quantity := jsAdd (quantity item) (Finite 1)\<rparr>
                                   else item) cart))"
  using assms
  by (auto simp: addToCart_def defaultVariantOf_def quantityInCart_def newLine_def Let_def
      split: option.splits)

text \<open>Without a first variant the call ends at one of the first two guards.\<close>

lemma addToCart_no_variant:
  assumes "variants product = None \<or> variants product = Some []"
  shows "addToCart cart product = Inl MissingProductId
         \<or> addToCart cart product = Inl NoVariantAvailable"
  using assms
  by (auto simp: addToCart_def defaultVariantOf_def split: option.splits)

text \<open>
  A line whose quantity is \<^verbatim>\<open>NaN\<close>, as \<^verbatim>\<open>updateQuantity\<close> stores it for an emptied box,
  passes the stock check whatever the stock: \<^verbatim>\<open>NaN >= stock\<close> is false.
\<close>

lemma addToCart_NaN_line:
  assumes "idOf product = Some pid" and "pid \<noteq> []"
      and "variants product = Some (v # vs)"
      and "find (\<lambda>item. productId item = pid) cart = Some item" and "quantity item = NaN"
  shows "\<exists>cart'. addToCart cart product = Inr cart'"
  using assms(4,5)
  by (simp add: addToCart_with_id [OF assms(1-3)] quantityInCart_def jsGreaterEq_def)

lemma find_append_fresh:
  "find P cart = None \<Longrightarrow> P x \<Longrightarrow> find P (cart @ [x]) = Some x"
  by (induction cart) (auto split: if_splits)

lemma sampleProduct_id: "idOf sampleProduct = Some ''p1''"
  by (simp add: idOf_def sampleProduct_def)

lemma sampleProduct_variants: "variants sampleProduct = Some (sampleVariant # [])"
  by (simp add: sampleProduct_def)

section \<open>Claims about the cart\<close>

text \<open>
  C4, as stated: for every product whose first variant has stock \<open>s\<close>, \<^verbatim>\<open>addToCart\<close> on
  a product with no cart line appends a line of quantity 1 unless \<open>s\<close> is 0. It does not
  for a product that has neither \<^verbatim>\<open>_id\<close> nor \<^verbatim>\<open>id\<close>: the guard \<^verbatim>\<open>if (!productId) return\<close>
  ends the call before the variant is read. Here the first variant has stock 1 and the
  cart is empty; no line is appended and the result is not the stock-exceeded rejection.
\<close>

theorem addToCart_no_id_counterexample:
  "idOf (sampleProduct\<lparr>product_uid := None\<rparr>) = None
   \<and> defaultVariantOf (sampleProduct\<lparr>product_uid := None\<rparr>) = Some sampleVariant
   \<and> stock sampleVariant = 1
   \<and> addToCart [] (sampleProduct\<lparr>product_uid := None\<rparr>) = Inl MissingProductId
   \<and> cartAfter [] (addToCart [] (sampleProduct\<lparr>product_uid := None\<rparr>)) = []"
  by (simp add: idOf_def defaultVariantOf_def addToCart_def cartAfter_def
        sampleProduct_def sampleVariant_def)

text \<open>
  C4, amended: for every cart and every product that has a non-empty id (\<^verbatim>\<open>_id\<close>, or
  else \<^verbatim>\<open>id\<close>) and whose first variant has stock \<open>s\<close>. When the product already has a
  cart line and the quantity \<open>q\<close> of that line is a number (not \<^verbatim>\<open>NaN\<close>): if \<open>q < s\<close> the
  call replaces the quantity of each line of the product by the double sum of it and 1,
  which is the quantity plus 1 for an integer of magnitude below \<open>2 ^ 53\<close>, and leaves the
  length of the list and every line of another product as they are; otherwise it
  rejects with the stock-exceeded condition, the cart unchanged. When the product has no
  cart line, the call appends a new line of quantity 1 if \<open>0 < s\<close> and rejects, the cart
  unchanged, if \<open>s \<le> 0\<close>. In particular, with \<open>s = 1\<close> and no line yet, the first add
  appends the line of quantity 1 and the second is rejected, the cart keeping that one
  line of quantity 1.
\<close>

theorem addToCart_stock_bound:
  assumes "idOf product = Some pid" and "pid \<noteq> []"
      and "variants product = Some (v # vs)"
  shows "(\<forall>item. find (\<lambda>item. productId item = pid) cart = Some item
                \<and> quantity item \<noteq> NaN \<longrightarrow>
            (jsLess (quantity item) (Finite (stock v)) \<longrightarrow>
               (\<exists>cart'. addToCart cart product = Inr cart' \<and> length cart' = length cart
                  \<and> (\<forall>i < length cart.
                        cart' ! i = (if productId (cart ! i) = pid
                                     then (cart ! i)\<lparr>quantity :=
                                            jsAdd (quantity (cart ! i)) (Finite 1)\<rparr>
                                     else cart ! i))
                  \<and> (\<forall>i < length cart. \<forall>n.
                        productId (cart ! i) = pid
                        \<and> quantity (cart ! i) = Finite (of_int n) \<and> \<bar>n\<bar> < 2 ^ 53 \<longrightarrow>
                        quantity (cart' ! i) = Finite (of_int (n + 1)))))
            \<and> (\<not> jsLess (quantity item) (Finite (stock v)) \<longrightarrow>
                 addToCart cart product = Inl (StockExceeded (stock v))
                 \<and> cartAfter cart (addToCart cart product) = cart))
         \<and> (find (\<lambda>item. productId item = pid) cart = None \<longrightarrow>
              (0 < stock v \<longrightarrow>
                 addToCart cart product = Inr (cart @ [newLine pid product v]))
              \<and> (stock v \<le> 0 \<longrightarrow>
                   addToCart cart product = Inl (StockExceeded (stock v))
                   \<and> cartAfter cart (addToCart cart product) = cart))
         \<and> (find (\<lambda>item. productId item = pid) cart = None \<and> stock v = 1 \<longrightarrow>
              addToCart cart product = Inr (cart @ [newLine pid product v])
              \<and> addToCart (cart @ [newLine pid product v]) product = Inl (StockExceeded 1)
              \<and> cartAfter (cart @ [newLine pid product v])
                   (addToCart (cart @ [newLine pid product v]) product)
                 = cart @ [newLine pid product v])"
proof -
  note eq = addToCart_with_id [OF assms]
  have old: "quantityInCart cart pid = quantity item"
    if "find (\<lambda>item. productId item = pid) cart = Some item" for item
    using that by (simp add: quantityInCart_def)
  have new: "quantityInCart cart pid = Finite 0"
    if "find (\<lambda>item. productId item = pid) cart = None"
    using that by (simp add: quantityInCart_def)
  have again: "quantityInCart (cart @ [newLine pid product v]) pid = Finite 1"
    if "find (\<lambda>item. productId item = pid) cart = None"
    using find_append_fresh [OF that, of "newLine pid product v"]
    by (simp add: quantityInCart_def newLine_def)
  have first: "(jsLess (quantity item) (Finite (stock v)) \<longrightarrow>
               (\<exists>cart'. addToCart cart product = Inr cart' \<and> length cart' = length cart
                  \<and> (\<forall>i < length cart.
                        cart' ! i = (if productId (cart ! i) = pid
                                     then (cart ! i)\<lparr>quantity :=
                                            jsAdd (quantity (cart ! i)) (Finite 1)\<rparr>
                                     else cart ! i))
                  \<and> (\<forall>i < length cart. \<forall>n.
                        productId (cart ! i) = pid
                        \<and> quantity (cart ! i) = Finite (of_int n) \<and> \<bar>n\<bar> < 2 ^ 53 \<longrightarrow>
                        quantity (cart' ! i) = Finite (of_int (n + 1)))))
            \<and> (\<not> jsLess (quantity item) (Finite (stock v)) \<longrightarrow>
                 addToCart cart product = Inl (StockExceeded (stock v))
                 \<and> cartAfter cart (addToCart cart product) = cart)"
    if f: "find (\<lambda>item. productId item = pid) cart = Some item"
      and n: "quantity item \<noteq> NaN" for item
  proof -
    have ge: "jsGreaterEq (quantityInCart cart pid) (Finite (stock v))
                = (\<not> jsLess (quantity item) (Finite (stock v)))"
      using old [OF f] n by (simp add: jsGreaterEq_not_NaN)
    show ?thesis
      using f by (auto simp: eq ge cartAfter_def jsAdd_one_int simp del: jsAdd.simps)
  qed
  have second: "(0 < stock v \<longrightarrow>
                 addToCart cart product = Inr (cart @ [newLine pid product v]))
              \<and> (stock v \<le> 0 \<longrightarrow>
                   addToCart cart product = Inl (StockExceeded (stock v))
                   \<and> cartAfter cart (addToCart cart product) = cart)"
    if "find (\<lambda>item. productId item = pid) cart = None"
    using that new [OF that] by (auto simp: eq cartAfter_def)
  have third: "addToCart cart product = Inr (cart @ [newLine pid product v])
              \<and> addToCart (cart @ [newLine pid product v]) product = Inl (StockExceeded 1)
              \<and> cartAfter (cart @ [newLine pid product v])
                   (addToCart (cart @ [newLine pid product v]) product)
                 = cart @ [newLine pid product v]"
    if "find (\<lambda>item. productId item = pid) cart = None" and "stock v = 1"
    using that new [OF that(1)] again [OF that(1)] by (auto simp: eq cartAfter_def)
  show ?thesis
    using first second third by blast
qed

text \<open>
  C4, amended, at the sample product, whose id is \<^verbatim>\<open>p1\<close> and whose only variant has
  stock 1: the first add to the empty cart appends the line, the second is rejected and
  the cart still is that one line of quantity 1; and with stock 5 an add to the sample
  cart, which holds the product once, makes that quantity 2 and leaves the other line.
\<close>

theorem addToCart_stock_bound_witness:
  "idOf sampleProduct = Some ''p1'' \<and> ''p1'' \<noteq> []
   \<and> variants sampleProduct = Some [sampleVariant] \<and> stock sampleVariant = 1
   \<and> addToCart [] sampleProduct
       = Inr [\<lparr>productId = ''p1'', item_name = ''Fold 5'', price = 100,
               quantity = Finite 1\<rparr>]
   \<and> addToCart [\<lparr>productId = ''p1'', item_name = ''Fold 5'', price = 100,
                  quantity = Finite 1\<rparr>] sampleProduct
       = Inl (StockExceeded 1)
   \<and> cartAfter [\<lparr>productId = ''p1'', item_name = ''Fold 5'', price = 100,
                  quantity = Finite 1\<rparr>]
        (addToCart
           [\<lparr>productId = ''p1'', item_name = ''Fold 5'', price = 100,
              quantity = Finite 1\<rparr>]
           sampleProduct)
       = [\<lparr>productId = ''p1'', item_name = ''Fold 5'', price = 100,
            quantity = Finite 1\<rparr>]
   \<and> map quantity
        (cartAfter sampleCart
           (addToCart sampleCart
              (sampleProduct\<lparr>variants := Some [sampleVariant\<lparr>stock := 5\<rparr>]\<rparr>)))
       = [Finite 2, Finite 2]"
proof -
  have h1: "idOf sampleProduct = Some ''p1''" by (rule sampleProduct_id)
  have h2: "''p1'' \<noteq> []" by simp
  have h3: "variants sampleProduct = Some (sampleVariant # [])"
    by (rule sampleProduct_variants)
  have line: "newLine ''p1'' sampleProduct sampleVariant
                = \<lparr>productId = ''p1'', item_name = ''Fold 5'', price = 100,
                   quantity = Finite 1\<rparr>"
    by (simp add: newLine_def sampleProduct_def sampleVariant_def)
  have s: "stock sampleVariant = 1" by (simp add: sampleVariant_def)
  have part1: "addToCart [] sampleProduct
                 = Inr [\<lparr>productId = ''p1'', item_name = ''Fold 5'', price = 100,
                         quantity = Finite 1\<rparr>]
               \<and> addToCart [\<lparr>productId = ''p1'', item_name = ''Fold 5'', price = 100,
                              quantity = Finite 1\<rparr>] sampleProduct
                 = Inl (StockExceeded 1)"
    using addToCart_stock_bound [OF h1 h2 h3, of "[]"] s
    by (simp add: line)
  let ?p5 = "sampleProduct\<lparr>variants := Some [sampleVariant\<lparr>stock := 5\<rparr>]\<rparr>"
  have g1: "idOf ?p5 = Some ''p1''" by (simp add: idOf_def sampleProduct_def)
  have g3: "variants ?p5 = Some (sampleVariant\<lparr>stock := 5\<rparr> # [])" by simp
  have found: "find (\<lambda>item. productId item = ''p1'') sampleCart = Some (sampleCart ! 0)
               \<and> quantity (sampleCart ! 0) \<noteq> NaN
               \<and> jsLess (quantity (sampleCart ! 0)) (Finite (stock (sampleVariant\<lparr>stock := 5\<rparr>)))"
    by (simp add: sampleCart_def)
  with addToCart_stock_bound [OF g1 h2 g3, of sampleCart]
  obtain cart' where r: "addToCart sampleCart ?p5 = Inr cart'"
    and len: "length cart' = length sampleCart"
    and same: "\<forall>i < length sampleCart.
                 cart' ! i = (if productId (sampleCart ! i) = ''p1''
                              then (sampleCart ! i)\<lparr>quantity :=
                                     jsAdd (quantity (sampleCart ! i)) (Finite 1)\<rparr>
                              else sampleCart ! i)"
    and inc: "\<forall>i < length sampleCart. \<forall>n.
                 productId (sampleCart ! i) = ''p1''
                 \<and> quantity (sampleCart ! i) = Finite (of_int n) \<and> \<bar>n\<bar> < 2 ^ 53 \<longrightarrow>
                 quantity (cart' ! i) = Finite (of_int (n + 1))"
    by blast
  have l2: "length sampleCart = 2" by (simp add: sampleCart_def)
  have "productId (sampleCart ! 0) = ''p1''
        \<and> quantity (sampleCart ! 0) = Finite (of_int 1) \<and> \<bar>1 :: int\<bar> < 2 ^ 53"
    by (simp add: sampleCart_def)
  with inc l2 have q0: "quantity (cart' ! 0) = Finite (of_int (1 + 1))"
    by (metis zero_less_numeral)
  have "cart' ! 1 = sampleCart ! 1"
    using same l2 by (simp add: sampleCart_def)
  then have q1: "quantity (cart' ! 1) = Finite 2"
    by (simp add: sampleCart_def)
  have "cart' = [cart' ! 0, cart' ! 1]"
    using len l2 by (cases cart'; cases "tl cart'") auto
  then have "map quantity cart' = [quantity (cart' ! 0), quantity (cart' ! 1)]"
    by (metis list.simps(8,9))
  with q0 q1 have "map quantity cart' = [Finite 2, Finite 2]" by simp
  then have part2: "map quantity (cartAfter sampleCart (addToCart sampleCart ?p5))
                      = [Finite 2, Finite 2]"
    by (simp add: r cartAfter_def)
  show ?thesis
    using part1 part2 h1 h3 s by (simp add: cartAfter_def)
qed

text \<open>
  C10: \<^verbatim>\<open>addToCart\<close> reads the first variant only. The result is the same as for the
  product with all other variants removed; a line that the call appends has the first
  variant's selling price as its price (and quantity 1); for a product with an id, the
  call rejects with the stock-exceeded condition exactly when the quantity the cart
  holds is \<^verbatim>\<open>>=\<close> the first variant's stock, and the stock it reports is that variant's;
  and when the variants list is empty or missing the call returns early (for lack of a
  variant, or of an id before that) and the cart is unchanged.
\<close>

theorem addToCart_first_variant:
  "(variants product = Some (v # vs) \<longrightarrow>
      addToCart cart product = addToCart cart (product\<lparr>variants := Some [v]\<rparr>))
   \<and> (\<forall>cart'. variants product = Some (v # vs) \<and> addToCart cart product = Inr cart'
                \<and> length cart' = Suc (length cart) \<longrightarrow>
         butlast cart' = cart \<and> price (last cart') = sellingPrice v
         \<and> quantity (last cart') = Finite 1)
   \<and> (\<forall>pid. variants product = Some (v # vs) \<and> idOf product = Some pid \<and> pid \<noteq> [] \<longrightarrow>
         ((\<exists>s. addToCart cart product = Inl (StockExceeded s))
            \<longleftrightarrow> jsGreaterEq (quantityInCart cart pid) (Finite (stock v)))
         \<and> (\<forall>s. addToCart cart product = Inl (StockExceeded s) \<longrightarrow> s = stock v))
   \<and> (variants product = None \<or> variants product = Some [] \<longrightarrow>
        (addToCart cart product = Inl MissingProductId
         \<or> addToCart cart product = Inl NoVariantAvailable)
        \<and> cartAfter cart (addToCart cart product) = cart)"
proof -
  have one: "addToCart cart product = addToCart cart (product\<lparr>variants := Some [v]\<rparr>)"
    if "variants product = Some (v # vs)"
    using that
    by (auto simp: addToCart_def defaultVariantOf_def idOf_def Let_def
        split: option.splits)
  have two: "butlast cart' = cart \<and> price (last cart') = sellingPrice v
             \<and> quantity (last cart') = Finite 1"
    if "variants product = Some (v # vs)" and "addToCart cart product = Inr cart'"
      and "length cart' = Suc (length cart)" for cart'
    using that
    by (auto simp: addToCart_def defaultVariantOf_def Let_def
        split: option.splits if_splits)
  have three: "((\<exists>s. addToCart cart product = Inl (StockExceeded s))
                  \<longleftrightarrow> jsGreaterEq (quantityInCart cart pid) (Finite (stock v)))
               \<and> (\<forall>s. addToCart cart product = Inl (StockExceeded s) \<longrightarrow> s = stock v)"
    if "variants product = Some (v # vs)" and "idOf product = Some pid" and "pid \<noteq> []"
    for pid
    using addToCart_with_id [OF that(2) that(3) that(1), of cart]
    by (auto split: if_splits)
  have four: "(addToCart cart product = Inl MissingProductId
               \<or> addToCart cart product = Inl NoVariantAvailable)
              \<and> cartAfter cart (addToCart cart product) = cart"
    if "variants product = None \<or> variants product = Some []"
    using addToCart_no_variant [OF that, of cart] by (auto simp: cartAfter_def)
  show ?thesis
    using one two three four by blast
qed

text \<open>
  C10 at the sample product: a second variant with stock 0 and price 7 changes nothing,
  and with an empty variants list the call is rejected and the sample cart stays.
\<close>

theorem addToCart_first_variant_witness:
  "addToCart []
     (sampleProduct\<lparr>variants :=
        Some [sampleVariant, sampleVariant\<lparr>stock := 0, sellingPrice := 7\<rparr>]\<rparr>)
     = addToCart [] sampleProduct
   \<and> addToCart sampleCart (sampleProduct\<lparr>variants := Some []\<rparr>) = Inl NoVariantAvailable
   \<and> cartAfter sampleCart (addToCart sampleCart (sampleProduct\<lparr>variants := Some []\<rparr>))
       = sampleCart"
proof -
  let ?w = "sampleVariant\<lparr>stock := 0, sellingPrice := 7\<rparr>"
  let ?p = "sampleProduct\<lparr>variants := Some [sampleVariant, ?w]\<rparr>"
  let ?q = "sampleProduct\<lparr>variants := Some []\<rparr>"
  have a: "variants ?p = Some (sampleVariant # [?w])"
    by simp
  have b: "?p\<lparr>variants := Some [sampleVariant]\<rparr> = sampleProduct"
    by (simp add: sampleProduct_def)
  have c: "variants ?q = None \<or> variants ?q = Some []" by simp
  have d: "addToCart sampleCart ?q \<noteq> Inl MissingProductId"
    by (simp add: addToCart_def idOf_def sampleProduct_def defaultVariantOf_def)
  from addToCart_first_variant [of ?p sampleVariant "[?w]" "[]"] a b
  have e: "addToCart [] ?p = addToCart [] sampleProduct" by simp
  from addToCart_first_variant [of ?q sampleVariant "[]" sampleCart] c d
  have "addToCart sampleCart ?q = Inl NoVariantAvailable
        \<and> cartAfter sampleCart (addToCart sampleCart ?q) = sampleCart"
    by blast
  with e show ?thesis by (simp add: cartAfter_def)
qed

text \<open>
  C7: \<^verbatim>\<open>updateQuantity\<close> returns early, the cart unchanged, exactly when the quantity is
  \<^verbatim>\<open><\<close> 1 or \<^verbatim>\<open>>\<close> the product's current variant stock; otherwise the new cart has the
  same length, every line of the product has the given quantity and every other line is
  the old one. (Both comparisons are false on \<^verbatim>\<open>NaN\<close>, which is then the new quantity.)
\<close>

theorem updateQuantity_bounds:
  "((\<exists>e. updateQuantity products cart pid qty = Inl e)
      \<longleftrightarrow> (jsLess qty (Finite 1)
           \<or> (\<exists>s. variantStock products pid = Some s \<and> jsGreater qty (Finite s))))
   \<and> (\<forall>e. updateQuantity products cart pid qty = Inl e \<longrightarrow>
         cartAfter cart (updateQuantity products cart pid qty) = cart)
   \<and> (\<forall>cart'. updateQuantity products cart pid qty = Inr cart' \<longrightarrow>
         length cart' = length cart
         \<and> (\<forall>i < length cart.
               cart' ! i = (if productId (cart ! i) = pid
                            then (cart ! i)\<lparr>quantity := qty\<rparr> else cart ! i)))"
  by (auto simp: updateQuantity_def variantStock_def cartAfter_def Let_def
      split: option.splits if_splits)

text \<open>
  C7 at the sample product (stock 1) and the sample cart: quantity 2 and quantity 0 for
  \<^verbatim>\<open>p1\<close> are rejected; quantity 9 for \<^verbatim>\<open>p2\<close>, a product the list does not hold, replaces
  the quantity of the second line only.
\<close>

theorem updateQuantity_bounds_witness:
  "variantStock [sampleProduct] ''p1'' = Some 1
   \<and> (\<exists>e. updateQuantity [sampleProduct] sampleCart ''p1'' (Finite 2) = Inl e)
   \<and> cartAfter sampleCart (updateQuantity [sampleProduct] sampleCart ''p1'' (Finite 2)) = sampleCart
   \<and> (\<exists>e. updateQuantity [sampleProduct] sampleCart ''p1'' (Finite 0) = Inl e)
   \<and> updateQuantity [sampleProduct] sampleCart ''p2'' (Finite 9)
       = Inr [sampleCart ! 0, (sampleCart ! 1)\<lparr>quantity := Finite 9\<rparr>]"
proof -
  have st: "variantStock [sampleProduct] ''p1'' = Some 1"
    by (simp add: variantStock_def idOf_def defaultVariantOf_def sampleProduct_def
          sampleVariant_def)
  have st2: "variantStock [sampleProduct] ''p2'' = None"
    by (simp add: variantStock_def idOf_def sampleProduct_def)
  have a: "\<exists>e. updateQuantity [sampleProduct] sampleCart ''p1'' (Finite 2) = Inl e"
    using updateQuantity_bounds [of "[sampleProduct]" sampleCart "''p1''" "Finite 2"] st by simp
  then have b: "cartAfter sampleCart (updateQuantity [sampleProduct] sampleCart ''p1'' (Finite 2))
                  = sampleCart"
    using updateQuantity_bounds [of "[sampleProduct]" sampleCart "''p1''" "Finite 2"] by blast
  have c: "\<exists>e. updateQuantity [sampleProduct] sampleCart ''p1'' (Finite 0) = Inl e"
    using updateQuantity_bounds [of "[sampleProduct]" sampleCart "''p1''" "Finite 0"] by simp
  have "\<not> (\<exists>e. updateQuantity [sampleProduct] sampleCart ''p2'' (Finite 9) = Inl e)"
    using updateQuantity_bounds [of "[sampleProduct]" sampleCart "''p2''" "Finite 9"] st2 by simp
  then obtain cart' where r: "updateQuantity [sampleProduct] sampleCart ''p2'' (Finite 9) = Inr cart'"
    by (cases "updateQuantity [sampleProduct] sampleCart ''p2'' (Finite 9)") auto
  then have len: "length cart' = length sampleCart"
    and elems: "\<forall>i < length sampleCart.
               cart' ! i = (if productId (sampleCart ! i) = ''p2''
                            then (sampleCart ! i)\<lparr>quantity := Finite 9\<rparr> else sampleCart ! i)"
    using updateQuantity_bounds [of "[sampleProduct]" sampleCart "''p2''" "Finite 9"] by blast+
  have l2: "length sampleCart = 2" by (simp add: sampleCart_def)
  have "cart' ! 0 = sampleCart ! 0"
    using elems l2 by (simp add: sampleCart_def)
  moreover have "cart' ! 1 = (sampleCart ! 1)\<lparr>quantity := Finite 9\<rparr>"
    using elems l2 by (simp add: sampleCart_def)
  moreover have "cart' = [cart' ! 0, cart' ! 1]"
    using len l2 by (cases cart'; cases "tl cart'") auto
  ultimately have "cart' = [sampleCart ! 0, (sampleCart ! 1)\<lparr>quantity := Finite 9\<rparr>]"
    by simp
  with st a b c r show ?thesis by simp
qed

end
